theory Spec2Isabelle
  imports Complex_Main
begin

section \<open>Numbers\<close>

text \<open>
  The source computes with JavaScript numbers. They are modelled as exact reals; the one
  non-real value the engine produces on purpose, \<open>Infinity\<close>, is a constructor of its own.
  \<open>Number(v) || dflt\<close> on a number \<open>v\<close> yields \<open>dflt\<close> exactly when \<open>v\<close> is zero. \<open>NaN\<close> is
  not modelled.
\<close>

datatype num = Fin real | PInf

fun num_add :: "num \<Rightarrow> num \<Rightarrow> num" where
  "num_add (Fin a) (Fin b) = Fin (a + b)"
| "num_add _ _ = PInf"

fun num_less :: "num \<Rightarrow> real \<Rightarrow> bool" where
  "num_less (Fin a) b = (a < b)"
| "num_less PInf b = False"

fun isFinite :: "num \<Rightarrow> bool" where
  "isFinite (Fin a) = True"
| "isFinite PInf = False"

definition num_or :: "real \<Rightarrow> real \<Rightarrow> real" where
  "num_or v dflt = (if v = 0 then dflt else v)"

definition floor_num :: "real \<Rightarrow> real" where
  "floor_num v = real_of_int \<lfloor>v\<rfloor>"

text \<open>
  Where rounding decides the control flow (the counting loops of the footing optimizer),
  arithmetic is that of IEEE doubles: \<open>dbl x\<close> is the double nearest to \<open>x\<close>, ties to the
  even significand of 53 bits. Overflow and subnormal results are not modelled. Each
  operation rounds its exact result.
\<close>

definition round_even :: "real \<Rightarrow> int" where
  "round_even z =
     (let f = \<lfloor>z\<rfloor>; r = z - real_of_int f
      in if r < 1 / 2 then f else if r > 1 / 2 then f + 1 else if even f then f else f + 1)"

definition dbl :: "real \<Rightarrow> real" where
  "dbl x =
     (if x = 0 then 0
      else let u = 2 powr (real_of_int \<lfloor>log 2 \<bar>x\<bar>\<rfloor> - 52)
           in u * real_of_int (round_even (x / u)))"

definition fadd :: "real \<Rightarrow> real \<Rightarrow> real" where
  "fadd a b = dbl (a + b)"

definition fsub :: "real \<Rightarrow> real \<Rightarrow> real" where
  "fsub a b = dbl (a - b)"

definition fmul :: "real \<Rightarrow> real \<Rightarrow> real" where
  "fmul a b = dbl (a * b)"

definition fdiv :: "real \<Rightarrow> real \<Rightarrow> real" where
  "fdiv a b = dbl (a / b)"

section \<open>Module-level constants and helpers\<close>

definition G :: real where
  "G = 9.8"

definition wind_q0 :: "real \<Rightarrow> real" where
  "wind_q0 V0 = 0.613 * V0 * V0"

definition sigmaAllow :: "real \<Rightarrow> real" where
  "sigmaAllow Fy = (2 / 3) * Fy"

definition PASSIVE_SOIL_Kp :: real where
  "PASSIVE_SOIL_Kp = 3.0"

subsection \<open>Anchor tension distribution (2 x 2 arrangement)\<close>

record coord =
  cid :: string
  cx :: real
  cy :: real

record anchorT =
  tid :: string
  tx :: real
  ty :: real
  T :: real

record tensions =
  tlist :: "anchorT list"
  sumY2 :: real

definition computeAnchorTensions :: "real \<Rightarrow> real \<Rightarrow> real \<Rightarrow> tensions" where
  "computeAnchorTensions Mom anchorGauge' anchorPitch' =
     (let xh = anchorPitch' / 2;
          yh = anchorGauge' / 2;
          coords = [\<lparr>cid = ''UL'', cx = - xh, cy = yh\<rparr>,
                    \<lparr>cid = ''UR'', cx = xh, cy = yh\<rparr>,
                    \<lparr>cid = ''LL'', cx = - xh, cy = - yh\<rparr>,
                    \<lparr>cid = ''LR'', cx = xh, cy = - yh\<rparr>];
          sY2 = foldl (\<lambda>s c. s + (cy c / 1000)\<^sup>2) 0 coords
      in \<lparr>tlist = map (\<lambda>c. \<lparr>tid = cid c, tx = cx c, ty = cy c,
                               T = (if sY2 > 0 then (Mom * (cy c / 1000)) / sY2 else 0)\<rparr>) coords,
          sumY2 = sY2\<rparr>)"

text \<open>\<open>Math.max(...xs, 0)\<close>: the largest of the listed values and 0.\<close>

definition max_with0 :: "real list \<Rightarrow> real" where
  "max_with0 xs = fold max xs 0"

definition Tmax_of :: "anchorT list \<Rightarrow> real" where
  "Tmax_of T_each = max_with0 (map (\<lambda>o'. max 0 (T o')) T_each)"

definition T_row_of :: "anchorT list \<Rightarrow> real" where
  "T_row_of T_each = max_with0 (map T (filter (\<lambda>o'. ty o' > 0) T_each))"

subsection \<open>Anchor interaction ratio\<close>

definition tensionTerm :: "real \<Rightarrow> real \<Rightarrow> num" where
  "tensionTerm Ta_eff Tmx = (if Ta_eff > 0 then Fin (Tmx / Ta_eff) else PInf)"

definition shearTerm :: "real \<Rightarrow> real \<Rightarrow> num" where
  "shearTerm Va_eff V = (if Va_eff > 0 then Fin (V / Va_eff) else Fin 0)"

definition etaAnchorLinear_of :: "real \<Rightarrow> real \<Rightarrow> real \<Rightarrow> real \<Rightarrow> num" where
  "etaAnchorLinear_of Ta_eff Va_eff Tmx V = num_add (tensionTerm Ta_eff Tmx) (shearTerm Va_eff V)"

definition ANCHOR_CALC_QTY_FIXED :: real where
  "ANCHOR_CALC_QTY_FIXED = 4"

text \<open>The per-anchor shear of the automatic anchor selection (\<open>handleAIAutoCalc\<close>).\<close>

definition V_c :: "real \<Rightarrow> real" where
  "V_c Fh_col = Fh_col / ANCHOR_CALC_QTY_FIXED"

section \<open>Catalogs and application state\<close>

record AnchorSpec =
  name :: string
  d :: real
  Ta :: real
  Va :: real
  min_e :: "real option"
  min_s :: "real option"
  hefRec :: "real option"

definition mkAnchor :: "string \<Rightarrow> real \<Rightarrow> real \<Rightarrow> real \<Rightarrow> real \<Rightarrow> real \<Rightarrow> real \<Rightarrow> AnchorSpec" where
  "mkAnchor n dd ta va me ms hr =
     \<lparr>name = n, d = dd, Ta = ta, Va = va, min_e = Some me, min_s = Some ms, hefRec = Some hr\<rparr>"

definition DEFAULT_ANCHORS :: "AnchorSpec list" where
  "DEFAULT_ANCHORS =
     [mkAnchor ''M12 A-BOLT'' 12 12000 5000 18 36 150,
      mkAnchor ''M16 A-BOLT'' 16 22000 9000 24 48 200,
      mkAnchor ''M20 A-BOLT'' 20 35000 14000 30 60 250,
      mkAnchor ''M24 A-BOLT'' 24 51000 20000 36 72 300,
      mkAnchor ''M30 A-BOLT'' 30 75000 30000 45 90 380,
      mkAnchor ''M32 A-BOLT'' 32 90000 36000 48 96 420]"

definition mkABR :: "string \<Rightarrow> real \<Rightarrow> real \<Rightarrow> real \<Rightarrow> AnchorSpec" where
  "mkABR n dd ta va =
     \<lparr>name = n, d = dd, Ta = ta, Va = va, min_e = None, min_s = None, hefRec = Some (dd * 20)\<rparr>"

definition ABR_ANCHORS :: "AnchorSpec list" where
  "ABR_ANCHORS =
     [mkABR ''M16 ABR'' 16 36900 21300,
      mkABR ''M20 ABR'' 20 57600 33200,
      mkABR ''M22 ABR'' 22 71200 41100,
      mkABR ''M24 ABR'' 24 83000 47900,
      mkABR ''M27 ABR'' 27 108000 62400,
      mkABR ''M30 ABR'' 30 132000 76200,
      mkABR ''M33 ABR'' 33 163000 94100,
      mkABR ''M36 ABR'' 36 192000 111000,
      mkABR ''M39 ABR'' 39 229000 132000,
      mkABR ''M42 ABR'' 42 263000 152000,
      mkABR ''M45 ABR'' 45 282000 163000,
      mkABR ''M48 ABR'' 48 316000 182000]"

datatype cfMode_t = SHAPE_ONLY | CF_INCLUDES_ALL

datatype footShape_t = RECT | L

text \<open>
  The \<open>useState\<close> cells of \<open>App\<close> that the engine reads. Cells that only feed the report
  (project name, digits, notes) are left out.
\<close>

record app =
  forceUnit :: string
  signType :: string
  width :: real
  height :: real
  panelKg :: real
  cgHeight :: real
  postQty :: real
  hasInterPostConnection :: bool
  anchors :: "AnchorSpec list"
  anchor :: AnchorSpec
  anchorQty :: real
  anchorGauge :: real
  anchorPitch :: real
  anchorEmbed :: real
  soilQa :: real
  mu :: real
  footShape :: footShape_t
  footB :: real
  footD :: real
  footH :: real
  embedDepth :: real
  etaPassive :: real
  L_t1 :: real
  L_t2 :: real
  soilUnitW :: real
  coverT :: real
  concUnitW :: real
  Fc :: real
  allowUpliftOK :: bool
  foundationOptMode :: string
  reqFS_OT :: real
  reqFS_SL :: real
  gammaBearing :: real
  windV0 :: real
  windKz :: real
  windGf :: real
  windIw :: real
  windKd :: real
  windKt :: real
  cfMode :: cfMode_t
  shapeCf :: real
  areaFactor :: real
  seismicC0 :: real
  FhInput :: real

text \<open>The initial values of the cells, as the \<open>useState\<close> calls give them.\<close>

definition initial_app :: app where
  "initial_app =
     \<lparr>forceUnit = ''N'', signType = ''freestanding'', width = 3.0, height = 2.0,
      panelKg = 250, cgHeight = 3.5, postQty = 1, hasInterPostConnection = True,
      anchors = DEFAULT_ANCHORS, anchor = mkABR ''M27 ABR'' 27 108000 62400,
      anchorQty = 4, anchorGauge = 200, anchorPitch = 160, anchorEmbed = 27 * 20,
      soilQa = 150, mu = 0.5, footShape = RECT, footB = 0.8, footD = 0.8, footH = 0.8,
      embedDepth = 0.0, etaPassive = 0.5, L_t1 = 0.2, L_t2 = 0.2, soilUnitW = 18,
      coverT = 0.3, concUnitW = 24, Fc = 21, allowUpliftOK = False,
      foundationOptMode = ''BD'', reqFS_OT = 1.5, reqFS_SL = 1.5, gammaBearing = 1.0,
      windV0 = 34, windKz = 1.0, windGf = 1.0, windIw = 1.0, windKd = 1.0, windKt = 1.0,
      cfMode = SHAPE_ONLY, shapeCf = 2.0, areaFactor = 1.0, seismicC0 = 0.3, FhInput = 0\<rparr>"

section \<open>Wind load and load combination\<close>

definition panelArea :: "app \<Rightarrow> real" where
  "panelArea s = width s * height s * areaFactor s"

definition q0 :: "app \<Rightarrow> real" where
  "q0 s = wind_q0 (windV0 s)"

definition Kz_eff :: "app \<Rightarrow> real" where
  "Kz_eff s = (if cfMode s = CF_INCLUDES_ALL then 1.0 else windKz s)"

definition Gf_eff :: "app \<Rightarrow> real" where
  "Gf_eff s = (if cfMode s = CF_INCLUDES_ALL then 1.0 else windGf s)"

definition Iw_eff :: "app \<Rightarrow> real" where
  "Iw_eff s = (if cfMode s = CF_INCLUDES_ALL then 1.0 else windIw s)"

definition Kd_eff :: "app \<Rightarrow> real" where
  "Kd_eff s = (if cfMode s = CF_INCLUDES_ALL then 1.0 else windKd s)"

definition Kt_eff :: "app \<Rightarrow> real" where
  "Kt_eff s = (if cfMode s = CF_INCLUDES_ALL then 1.0 else windKt s)"

definition qz :: "app \<Rightarrow> real" where
  "qz s = q0 s * Kz_eff s * Gf_eff s * Iw_eff s * Kd_eff s * Kt_eff s"

definition Fw_total :: "app \<Rightarrow> real" where
  "Fw_total s = qz s * shapeCf s * panelArea s"

definition Wself_total :: "app \<Rightarrow> real" where
  "Wself_total s = panelKg s * G"

definition nCol_raw :: "app \<Rightarrow> real" where
  "nCol_raw s = max 1 (floor_num (num_or (postQty s) 1))"

definition nCol :: "app \<Rightarrow> real" where
  "nCol s = (if hasInterPostConnection s then nCol_raw s else 1)"

definition Fh_auto_total :: "app \<Rightarrow> real" where
  "Fh_auto_total s =
     (if signType s = ''freestanding''
      then max (Fw_total s) (Wself_total s * seismicC0 s)
      else Fw_total s + Wself_total s * seismicC0 s)"

definition Fh_manual_total_N :: "app \<Rightarrow> real" where
  "Fh_manual_total_N s =
     (let v = max 0 (FhInput s) in if forceUnit s = ''kgf'' then v * G else v)"

definition Fh_total :: "app \<Rightarrow> real" where
  "Fh_total s = (if Fh_manual_total_N s > 0 then Fh_manual_total_N s else Fh_auto_total s)"

definition Fh :: "app \<Rightarrow> real" where
  "Fh s = Fh_total s / nCol s"

definition M :: "app \<Rightarrow> real" where
  "M s =
     (if signType s = ''freestanding'' then Fh s * cgHeight s
      else if signType s = ''projecting'' then Fh s * 0.8
      else Fh s * 0.1)"

definition Wself_perCol :: "app \<Rightarrow> real" where
  "Wself_perCol s = Wself_total s / nCol s"

section \<open>Anchor group check\<close>

definition T_each :: "app \<Rightarrow> anchorT list" where
  "T_each s = tlist (computeAnchorTensions (M s) (anchorGauge s) (anchorPitch s))"

definition Tmax :: "app \<Rightarrow> real" where
  "Tmax s = Tmax_of (T_each s)"

definition ANCHOR_CALC_QTY :: "app \<Rightarrow> real" where
  "ANCHOR_CALC_QTY s = max 2 (floor_num (num_or (anchorQty s) 4))"

definition V_anchor :: "app \<Rightarrow> real" where
  "V_anchor s = Fh s / ANCHOR_CALC_QTY s"

definition hef :: "app \<Rightarrow> real" where
  "hef s = num_or (anchorEmbed s) 0"

definition FcNum :: "app \<Rightarrow> real" where
  "FcNum s = num_or (Fc s) 0"

text \<open>Concrete-side tension capacity, with the coefficients of \<open>ANCHOR_CONC\<close>.\<close>

definition Ta_conc :: "app \<Rightarrow> real" where
  "Ta_conc s =
     (if FcNum s > 0 \<and> hef s > 0
      then 7.0 * sqrt (FcNum s) * (hef s powr 1.5) * 0.75 * 0.85 * 0.85
      else 0)"

definition Ta_eff :: "app \<Rightarrow> real" where
  "Ta_eff s = min (Ta (anchor s)) (Ta_conc s)"

definition Va_eff :: "app \<Rightarrow> real" where
  "Va_eff s = Va (anchor s)"

definition etaAnchorLinear :: "app \<Rightarrow> num" where
  "etaAnchorLinear s = etaAnchorLinear_of (Ta_eff s) (Va_eff s) (Tmax s) (V_anchor s)"

text \<open>\<open>v || dflt\<close> on an optional catalog number: absent and zero both give \<open>dflt\<close>.\<close>

definition opt_or :: "real option \<Rightarrow> real \<Rightarrow> real" where
  "opt_or v dflt = (case v of None \<Rightarrow> dflt | Some x \<Rightarrow> num_or x dflt)"

definition hefReq :: "app \<Rightarrow> real" where
  "hefReq s =
     (if signType s = ''freestanding'' then d (anchor s) * 20
      else opt_or (hefRec (anchor s)) (d (anchor s) * 10))"

definition hefOK :: "app \<Rightarrow> bool" where
  "hefOK s = (anchorEmbed s \<ge> hefReq s)"

section \<open>Foundation stability: \<open>evalFoundation\<close>\<close>

text \<open>
  \<open>evalFoundation(B, D, H)\<close> closes over the current cells and the derived loads. Each
  local constant of its body is a definition of its own (prefix \<open>ef_\<close>), in the order of
  the source; \<open>evalFoundation\<close> collects them in the returned object. The display string
  \<open>slideNote\<close> of the returned object is not modelled.
\<close>

abbreviation eps9 :: real where
  "eps9 \<equiv> 1 / 10 ^ 9"

datatype contactMode_t = full | partial | none

definition ef_t1 :: "app \<Rightarrow> real" where
  "ef_t1 s = max 0 (num_or (L_t1 s) 0)"

definition ef_t2 :: "app \<Rightarrow> real" where
  "ef_t2 s = max 0 (num_or (L_t2 s) 0)"

definition ef_A :: "app \<Rightarrow> real \<Rightarrow> real \<Rightarrow> real" where
  "ef_A s B D =
     (if footShape s = L then max (B * ef_t1 s + D * ef_t2 s - ef_t1 s * ef_t2 s) eps9
      else max (B * D) eps9)"

definition ef_A_weight :: "app \<Rightarrow> real \<Rightarrow> real \<Rightarrow> real" where
  "ef_A_weight s B D =
     (if footShape s = L then max (B * ef_t1 s + D * ef_t2 s - ef_t1 s * ef_t2 s) eps9
      else max (B * D) eps9)"

definition ef_Wconc :: "app \<Rightarrow> real \<Rightarrow> real \<Rightarrow> real \<Rightarrow> real" where
  "ef_Wconc s B D H = concUnitW s * 1000 * (ef_A_weight s B D * H)"

definition ef_Wcover :: "app \<Rightarrow> real \<Rightarrow> real \<Rightarrow> real" where
  "ef_Wcover s B D = soilUnitW s * 1000 * (ef_A_weight s B D * coverT s)"

definition ef_N :: "app \<Rightarrow> real \<Rightarrow> real \<Rightarrow> real \<Rightarrow> real" where
  "ef_N s B D H = ef_Wconc s B D H + ef_Wcover s B D + Wself_perCol s"

definition ef_e :: "app \<Rightarrow> real \<Rightarrow> real \<Rightarrow> real \<Rightarrow> real" where
  "ef_e s B D H = \<bar>M s\<bar> / max (ef_N s B D H) eps9"

definition ef_e_lim :: "real \<Rightarrow> real" where
  "ef_e_lim B = B / 6"

definition ef_contactMode :: "app \<Rightarrow> real \<Rightarrow> real \<Rightarrow> real \<Rightarrow> contactMode_t" where
  "ef_contactMode s B D H =
     (if ef_e s B D H \<le> ef_e_lim B then full
      else if ef_e s B D H < B / 2 then partial
      else none)"

definition ef_b_eff :: "app \<Rightarrow> real \<Rightarrow> real \<Rightarrow> real \<Rightarrow> real" where
  "ef_b_eff s B D H =
     (if ef_e s B D H \<le> ef_e_lim B then B
      else if ef_e s B D H < B / 2 then max (3 * (B / 2 - ef_e s B D H)) 0
      else 0)"

definition ef_A_full :: "real \<Rightarrow> real \<Rightarrow> real" where
  "ef_A_full B D = max (B * D) eps9"

definition ef_A_contact :: "app \<Rightarrow> real \<Rightarrow> real \<Rightarrow> real \<Rightarrow> real" where
  "ef_A_contact s B D H = max (ef_b_eff s B D H * D) eps9"

definition ef_sigma_avg_full :: "app \<Rightarrow> real \<Rightarrow> real \<Rightarrow> real \<Rightarrow> real" where
  "ef_sigma_avg_full s B D H = ef_N s B D H / ef_A_full B D"

definition ef_sigma_max :: "app \<Rightarrow> real \<Rightarrow> real \<Rightarrow> real \<Rightarrow> num" where
  "ef_sigma_max s B D H =
     (case ef_contactMode s B D H of
        full \<Rightarrow> Fin (ef_sigma_avg_full s B D H * (1 + (6 * ef_e s B D H) / max B eps9))
      | partial \<Rightarrow> Fin ((2 * ef_N s B D H) / ef_A_contact s B D H)
      | none \<Rightarrow> PInf)"

definition ef_sigma_min :: "app \<Rightarrow> real \<Rightarrow> real \<Rightarrow> real \<Rightarrow> real" where
  "ef_sigma_min s B D H =
     (case ef_contactMode s B D H of
        full \<Rightarrow> ef_sigma_avg_full s B D H * (1 - (6 * ef_e s B D H) / max B eps9)
      | partial \<Rightarrow> 0
      | none \<Rightarrow> 0)"

definition ef_noUplift :: "app \<Rightarrow> real \<Rightarrow> real \<Rightarrow> real \<Rightarrow> bool" where
  "ef_noUplift s B D H =
     (case ef_contactMode s B D H of
        full \<Rightarrow> ef_sigma_min s B D H \<ge> 0
      | partial \<Rightarrow> False
      | none \<Rightarrow> False)"

definition ef_qa_allow_soil :: "app \<Rightarrow> real" where
  "ef_qa_allow_soil s = soilQa s / max (gammaBearing s) eps9"

definition ef_qa_allow_conc :: "app \<Rightarrow> real" where
  "ef_qa_allow_conc s = 0.25 * Fc s * 1000"

definition ef_qa_allow_final :: "app \<Rightarrow> real" where
  "ef_qa_allow_final s = min (ef_qa_allow_soil s) (ef_qa_allow_conc s)"

definition ef_bearingOK :: "app \<Rightarrow> real \<Rightarrow> real \<Rightarrow> real \<Rightarrow> bool" where
  "ef_bearingOK s B D H =
     (case ef_sigma_max s B D H of
        Fin sg \<Rightarrow> sg / 1000 \<le> ef_qa_allow_final s
      | PInf \<Rightarrow> False)"

definition ef_z :: "app \<Rightarrow> real" where
  "ef_z s = max 0 (num_or (embedDepth s) 0)"

definition ef_gammaN :: "app \<Rightarrow> real" where
  "ef_gammaN s = soilUnitW s * 1000"

definition ef_Pp_raw :: "app \<Rightarrow> real \<Rightarrow> real" where
  "ef_Pp_raw s D =
     (if ef_z s > 0 then 0.5 * PASSIVE_SOIL_Kp * ef_gammaN s * D * ef_z s * ef_z s else 0)"

definition ef_Pp :: "app \<Rightarrow> real \<Rightarrow> real" where
  "ef_Pp s D = ef_Pp_raw s D * etaPassive s"

definition ef_M_passive :: "app \<Rightarrow> real \<Rightarrow> real" where
  "ef_M_passive s D = (if ef_z s > 0 then ef_Pp s D * (ef_z s / 3) else 0)"

definition ef_leverArm_OT :: "app \<Rightarrow> real \<Rightarrow> real \<Rightarrow> real \<Rightarrow> real" where
  "ef_leverArm_OT s B D H = max (B / 2 - ef_e s B D H) 0"

definition ef_MrN :: "app \<Rightarrow> real \<Rightarrow> real \<Rightarrow> real \<Rightarrow> real" where
  "ef_MrN s B D H = ef_N s B D H * ef_leverArm_OT s B D H"

definition ef_Mr :: "app \<Rightarrow> real \<Rightarrow> real \<Rightarrow> real \<Rightarrow> real" where
  "ef_Mr s B D H = ef_MrN s B D H + ef_M_passive s D"

definition ef_FS_OT :: "app \<Rightarrow> real \<Rightarrow> real \<Rightarrow> real \<Rightarrow> real" where
  "ef_FS_OT s B D H = ef_Mr s B D H / max \<bar>M s\<bar> eps9"

definition ef_OT_OK :: "app \<Rightarrow> real \<Rightarrow> real \<Rightarrow> real \<Rightarrow> bool" where
  "ef_OT_OK s B D H =
     (if allowUpliftOK s then ef_FS_OT s B D H \<ge> reqFS_OT s
      else ef_FS_OT s B D H \<ge> reqFS_OT s \<and> ef_noUplift s B D H)"

definition ef_contactRatio :: "app \<Rightarrow> real \<Rightarrow> real \<Rightarrow> real \<Rightarrow> real" where
  "ef_contactRatio s B D H = (if B > 0 then min (max (ef_b_eff s B D H / B) 0) 1 else 0)"

definition ef_N_eff :: "app \<Rightarrow> real \<Rightarrow> real \<Rightarrow> real \<Rightarrow> real" where
  "ef_N_eff s B D H = ef_N s B D H * ef_contactRatio s B D H"

definition ef_R_slide :: "app \<Rightarrow> real \<Rightarrow> real \<Rightarrow> real \<Rightarrow> real" where
  "ef_R_slide s B D H = mu s * ef_N_eff s B D H + ef_Pp s D"

definition ef_FS_SL :: "app \<Rightarrow> real \<Rightarrow> real \<Rightarrow> real \<Rightarrow> real" where
  "ef_FS_SL s B D H = ef_R_slide s B D H / max (Fh s) eps9"

definition ef_SL_OK :: "app \<Rightarrow> real \<Rightarrow> real \<Rightarrow> real \<Rightarrow> bool" where
  "ef_SL_OK s B D H = (ef_FS_SL s B D H \<ge> reqFS_SL s)"

definition ef_ok :: "app \<Rightarrow> real \<Rightarrow> real \<Rightarrow> real \<Rightarrow> bool" where
  "ef_ok s B D H = (ef_bearingOK s B D H \<and> ef_OT_OK s B D H \<and> ef_SL_OK s B D H)"

record fnd =
  r_ok :: bool
  r_N :: real
  r_e :: real
  r_sigma_max :: num
  r_sigma_min :: real
  r_noUplift :: bool
  r_qa_allow_soil :: real
  r_qa_allow_conc :: real
  r_qa_allow_final :: real
  r_bearingOK :: bool
  r_leverArm_OT :: real
  r_FS_OT :: real
  r_OT_OK :: bool
  r_FS_SL :: real
  r_SL_OK :: bool
  r_volume :: real
  r_areaBD :: real
  r_B_eff :: real
  r_B :: real
  r_D :: real
  r_H :: real
  r_Pp :: real
  r_Pp_raw :: real
  r_M_passive :: real
  r_z :: real
  r_R_slide :: real

definition evalFoundation :: "app \<Rightarrow> real \<Rightarrow> real \<Rightarrow> real \<Rightarrow> fnd" where
  "evalFoundation s B D H =
     \<lparr>r_ok = ef_ok s B D H,
      r_N = ef_N s B D H,
      r_e = ef_e s B D H,
      r_sigma_max = ef_sigma_max s B D H,
      r_sigma_min = ef_sigma_min s B D H,
      r_noUplift = ef_noUplift s B D H,
      r_qa_allow_soil = ef_qa_allow_soil s,
      r_qa_allow_conc = ef_qa_allow_conc s,
      r_qa_allow_final = ef_qa_allow_final s,
      r_bearingOK = ef_bearingOK s B D H,
      r_leverArm_OT = ef_leverArm_OT s B D H,
      r_FS_OT = ef_FS_OT s B D H,
      r_OT_OK = ef_OT_OK s B D H,
      r_FS_SL = ef_FS_SL s B D H,
      r_SL_OK = ef_SL_OK s B D H,
      r_volume = ef_A s B D * H,
      r_areaBD = ef_A s B D,
      r_B_eff = B,
      r_B = B,
      r_D = D,
      r_H = H,
      r_Pp = ef_Pp s D,
      r_Pp_raw = ef_Pp_raw s D,
      r_M_passive = ef_M_passive s D,
      r_z = ef_z s,
      r_R_slide = ef_R_slide s B D H\<rparr>"

section \<open>Footing optimizer (step 4 of \<open>handleAIAutoCalc\<close>)\<close>

text \<open>
  The counting loops \<open>for (let x = x0; x <= 2.0; x += 0.05)\<close>. The counter is a double:
  it starts at the double of the literal \<open>x0\<close>, and every pass adds the double of 0.05 and
  rounds. \<open>gridFrom x\<close> is the list of the values the body sees from counter value \<open>x\<close> on;
  \<open>None\<close> is a loop that does not end.
\<close>

partial_function (option) gridFrom :: "real \<Rightarrow> real list option" where
  "gridFrom x =
     (if x \<le> 2.0 then Option.bind (gridFrom (fadd x (dbl 0.05))) (\<lambda>rest. Some (x # rest))
      else Some [])"

text \<open>The loop from the literal \<open>x0\<close> visits the value \<open>v\<close>.\<close>

definition visits :: "real \<Rightarrow> real \<Rightarrow> bool" where
  "visits x0 v = (case gridFrom (dbl x0) of Some xs \<Rightarrow> v \<in> set xs | None \<Rightarrow> False)"

record search =
  found :: bool
  bestScore :: real
  bestB :: real
  bestD :: real
  bestH :: real

definition DEFAULT_FOOT :: "real \<times> real \<times> real" where
  "DEFAULT_FOOT = (dbl 0.8, dbl 0.8, dbl 0.8)"

text \<open>
  The arithmetic that the optimizer itself performs on the loop values rounds as
  doubles do; \<open>evalFoundation\<close> stays in exact arithmetic.
\<close>

definition sizeScore :: "real \<Rightarrow> real \<Rightarrow> real \<Rightarrow> real" where
  "sizeScore B D H = fadd (fadd (fmul B 100) (fmul D 10)) H"

text \<open>The state of the search before the loops: the default footing seeds it.\<close>

definition searchInit :: "app \<Rightarrow> search" where
  "searchInit s =
     (case DEFAULT_FOOT of (B0, D0, H0) \<Rightarrow>
        \<lparr>found = r_ok (evalFoundation s B0 D0 H0),
         bestScore = (if foundationOptMode s = ''VOL'' then fmul (fmul B0 D0) H0
                      else sizeScore B0 D0 H0),
         bestB = B0, bestD = D0, bestH = H0\<rparr>)"

text \<open>The body of the innermost loop of the first search.\<close>

definition searchStep :: "app \<Rightarrow> real \<Rightarrow> real \<Rightarrow> real \<Rightarrow> search \<Rightarrow> search" where
  "searchStep s B D H st =
     (let r = evalFoundation s B D H
      in if \<not> r_ok r then st
         else let score = (if foundationOptMode s = ''VOL'' then r_volume r
                           else sizeScore B D H)
              in if \<not> found st \<or> score < bestScore st
                 then \<lparr>found = True, bestScore = score, bestB = B, bestD = D, bestH = H\<rparr>
                 else st)"

text \<open>
  The three nested loops over B, D and H. The loops over B and over D both count from
  0.6, the loop over H from 0.4; an inner loop sees the same values on every pass of the
  loop around it.
\<close>

definition searchPassing :: "app \<Rightarrow> search option" where
  "searchPassing s =
     (case gridFrom (dbl 0.6) of
        None \<Rightarrow> None
      | Some bs \<Rightarrow>
          (case gridFrom (dbl 0.4) of
             None \<Rightarrow> None
           | Some hs \<Rightarrow>
               Some (fold (\<lambda>B. fold (\<lambda>D. fold (\<lambda>H. searchStep s B D H) hs) bs) bs
                       (searchInit s))))"

record near =
  nearB :: real
  nearD :: real
  nearH :: real
  scoreNear :: real

definition scoreNear_of :: "app \<Rightarrow> real \<Rightarrow> real \<Rightarrow> real \<Rightarrow> real" where
  "scoreNear_of s B D H =
     (let r = evalFoundation s B D H;
          rateOT = fdiv (r_FS_OT r) (max (reqFS_OT s) (dbl eps9));
          rateSL = fdiv (r_FS_SL r) (max (reqFS_SL s) (dbl eps9));
          rateBE = (case r_sigma_max r of
                      Fin sg \<Rightarrow> fdiv (fmul (r_qa_allow_final r) 1000) (max sg (dbl eps9))
                    | PInf \<Rightarrow> 0);
          rateMin = min rateOT (min rateSL rateBE);
          sizePenalty = (if foundationOptMode s = ''VOL'' then fmul (fmul B D) H
                         else sizeScore B D H)
      in fsub (fmul rateMin 100000) sizePenalty)"

text \<open>The body of the innermost loop of the rescue search; \<open>None\<close> is \<open>bestNear = null\<close>.\<close>

definition nearStep :: "app \<Rightarrow> real \<Rightarrow> real \<Rightarrow> real \<Rightarrow> near option \<Rightarrow> near option" where
  "nearStep s B D H bestNear =
     (let sn = scoreNear_of s B D H
      in case bestNear of
           None \<Rightarrow> Some \<lparr>nearB = B, nearD = D, nearH = H, scoreNear = sn\<rparr>
         | Some b \<Rightarrow> if sn > scoreNear b
                     then Some \<lparr>nearB = B, nearD = D, nearH = H, scoreNear = sn\<rparr>
                     else bestNear)"

definition searchNear :: "app \<Rightarrow> near option option" where
  "searchNear s =
     (case gridFrom (dbl 0.6) of
        None \<Rightarrow> None
      | Some bs \<Rightarrow>
          (case gridFrom (dbl 0.4) of
             None \<Rightarrow> None
           | Some hs \<Rightarrow>
               Some (fold (\<lambda>B. fold (\<lambda>D. fold (\<lambda>H. nearStep s B D H) hs) bs) bs None)))"

text \<open>\<open>Number(x.toFixed(2))\<close>: rounding to two decimals, halves away from zero.\<close>

definition toFixed2 :: "real \<Rightarrow> real" where
  "toFixed2 x =
     (if x \<ge> 0 then real_of_int \<lfloor>x * 100 + 1 / 2\<rfloor> / 100
      else - (real_of_int \<lfloor>- x * 100 + 1 / 2\<rfloor> / 100))"

text \<open>
  What the run reports about the footing: a passing footing was adopted silently, the
  best-effort alert was shown, or the footing was left alone. The result \<open>None\<close> is a run
  whose loops do not end.
\<close>

datatype outcome = FoundOK | BestNearAlert | Unchanged

definition optimizeFoundation :: "app \<Rightarrow> (app \<times> outcome) option" where
  "optimizeFoundation s =
     (if signType s = ''freestanding''
      then (case searchPassing s of
              None \<Rightarrow> None
            | Some st \<Rightarrow>
                if found st
                then Some (s\<lparr>footB := toFixed2 (bestB st), footD := toFixed2 (bestD st),
                             footH := toFixed2 (bestH st)\<rparr>, FoundOK)
                else (case searchNear s of
                        None \<Rightarrow> None
                      | Some None \<Rightarrow> Some (s, Unchanged)
                      | Some (Some b) \<Rightarrow>
                          Some (s\<lparr>footB := toFixed2 (nearB b), footD := toFixed2 (nearD b),
                                   footH := toFixed2 (nearH b)\<rparr>, BestNearAlert)))
      else Some (s, Unchanged))"

section \<open>Configuration import\<close>

text \<open>
  The fields of an imported configuration object that decide the selected anchor and the
  accepted embedment; a field that is absent or fails its type test is \<open>None\<close>. The other
  fields of the object set cells that neither \<open>applyConfig\<close> nor the sign-type effect reads
  for these two, and are left out.
\<close>

record cfg =
  cfg_signType :: "string option"
  cfg_anchors :: "AnchorSpec list option"
  cfg_anchorName :: "string option"
  cfg_anchorEmbed :: "real option"

text \<open>\<open>list.find((a) => a.name === n) || list[0]\<close>; \<open>None\<close> is \<open>undefined\<close>.\<close>

definition find_or_first :: "string \<Rightarrow> AnchorSpec list \<Rightarrow> AnchorSpec option" where
  "find_or_first n lst =
     (case List.find (\<lambda>a. name a = n) lst of
        Some a \<Rightarrow> Some a
      | None \<Rightarrow> (case lst of [] \<Rightarrow> None | a # _ \<Rightarrow> Some a))"

text \<open>
  \<open>applyConfig\<close>: the state after the batched setter calls. The names \<open>signType\<close>, \<open>anchor\<close>
  and \<open>anchors\<close> in its body are the cells of the render that called it, that is, of the
  state \<open>s\<close> before the import; a later setter call for the same cell wins.
\<close>

definition applyConfig :: "cfg \<Rightarrow> app \<Rightarrow> app" where
  "applyConfig c s =
     (let signTypeFromCfg = (case cfg_signType c of Some t \<Rightarrow> t | None \<Rightarrow> signType s);
          s1 = (case cfg_signType c of Some t \<Rightarrow> s\<lparr>signType := t\<rparr> | None \<Rightarrow> s);
          s2 = (case cfg_anchors c of
                  Some as \<Rightarrow> if as \<noteq> [] then s1\<lparr>anchors := as\<rparr> else s1
                | None \<Rightarrow> s1);
          s3 = (case cfg_anchorName c of
                  None \<Rightarrow> s2
                | Some n \<Rightarrow>
                    (let lst = (if signTypeFromCfg = ''freestanding'' then ABR_ANCHORS
                                else (case cfg_anchors c of Some as \<Rightarrow> as | None \<Rightarrow> anchors s))
                     in case find_or_first n lst of
                          None \<Rightarrow> s2
                        | Some pick \<Rightarrow>
                            (let minHef = (if signTypeFromCfg = ''freestanding'' then d pick * 20
                                           else opt_or (hefRec pick) (d pick * 10))
                             in s2\<lparr>anchor := pick, anchorEmbed := minHef\<rparr>)));
          s4 = (case cfg_anchorEmbed c of
                  None \<Rightarrow> s3
                | Some v \<Rightarrow>
                    (let minHef = (if signTypeFromCfg = ''freestanding''
                                   then num_or (d (anchor s)) 27 * 20
                                   else opt_or (hefRec (anchor s)) (num_or (d (anchor s)) 16 * 10))
                     in s3\<lparr>anchorEmbed := max minHef v\<rparr>))
      in s4)"

definition anchorsForUI :: "app \<Rightarrow> AnchorSpec list" where
  "anchorsForUI s = (if signType s = ''freestanding'' then ABR_ANCHORS else anchors s)"

text \<open>The effect that depends on \<open>[signType, anchors]\<close>, run on the state of the new render.\<close>

definition signTypeEffect :: "app \<Rightarrow> app" where
  "signTypeEffect s =
     (case anchorsForUI s of
        [] \<Rightarrow> s
      | a0 # rest \<Rightarrow>
          (let next = (case List.find (\<lambda>a. name a = name (anchor s)) (a0 # rest) of
                         Some a \<Rightarrow> a | None \<Rightarrow> a0);
               s1 = (if name next \<noteq> name (anchor s) then s\<lparr>anchor := next\<rparr> else s);
               minHef = (if signType s = ''freestanding'' then d next * 20
                         else opt_or (hefRec next) (d next * 10))
           in s1\<lparr>anchorEmbed := max (num_or (anchorEmbed s) 0) minHef\<rparr>))"

text \<open>
  An import: \<open>applyConfig\<close>, then the effect if one of its dependencies changed. The sign
  type changes when the new string differs; the anchor catalog is a freshly parsed array,
  so it changes whenever \<open>applyConfig\<close> sets it.
\<close>

definition importConfig :: "cfg \<Rightarrow> app \<Rightarrow> app" where
  "importConfig c s =
     (let s' = applyConfig c s;
          anchorsSet = (case cfg_anchors c of Some as \<Rightarrow> as \<noteq> [] | None \<Rightarrow> False)
      in if anchorsSet \<or> signType s' \<noteq> signType s then signTypeEffect s' else s')"

section \<open>Scenarios\<close>

text \<open>
  The state of the application after it has mounted (the embedment depth follows the
  footing thickness: 0.8 - 0.1 = 0.7 m), with the centre of gravity of the sign raised to
  8.2 m.
\<close>

definition tallSign :: app where
  "tallSign = initial_app\<lparr>cgHeight := 8.2, embedDepth := 0.7\<rparr>"

text \<open>
  The initial state with a manual horizontal force of 31850 N, which is the vertical load
  of a footing of 1 m by 1 m by 1 m there, acting at a height a tenth of a nanometre short
  of half that footing's width.
\<close>

definition edgeOfContact :: app where
  "edgeOfContact = initial_app\<lparr>FhInput := 31850, cgHeight := 1 / 2 - 1 / 10 ^ 10\<rparr>"

text \<open>A configuration file that names the largest regulated anchor and a 600 mm embedment.\<close>

definition cfgM48 :: cfg where
  "cfgM48 = \<lparr>cfg_signType = None, cfg_anchors = None,
             cfg_anchorName = Some ''M48 ABR'', cfg_anchorEmbed = Some 600\<rparr>"

section \<open>Results: wind load\<close>

lemmas wind_defs = q0_def qz_def panelArea_def Fw_total_def wind_q0_def
  Kz_eff_def Gf_eff_def Iw_eff_def Kd_eff_def Kt_eff_def

lemmas load_defs = Fh_def Fh_total_def Fh_manual_total_N_def Fh_auto_total_def nCol_def
  nCol_raw_def num_or_def floor_num_def M_def Wself_perCol_def Wself_total_def G_def

text \<open>
  Claim C5, as the code has it. With reference wind speed 34 m/s, the five modifiers at 1.0,
  shape coefficient 2.0 and a panel of 3.0 m by 2.0 m with area factor 1.0 (whatever the
  other cells hold, the coefficient mode included), the basic velocity pressure is
  0.613 * 34^2 = 708.628 Pa, the design velocity pressure equals it, the effective area is
  6 m2, and the resultant wind force is 708.628 * 2.0 * 6.0 = 8503.536 N.
\<close>

theorem scenario_A_wind_force:
  "q0 (s\<lparr>width := 3, height := 2, areaFactor := 1, windV0 := 34, windKz := 1, windGf := 1,
          windIw := 1, windKd := 1, windKt := 1, shapeCf := 2\<rparr>) = 0.613 * 34\<^sup>2
   \<and> qz (s\<lparr>width := 3, height := 2, areaFactor := 1, windV0 := 34, windKz := 1, windGf := 1,
            windIw := 1, windKd := 1, windKt := 1, shapeCf := 2\<rparr>)
       = q0 (s\<lparr>width := 3, height := 2, areaFactor := 1, windV0 := 34, windKz := 1,
                windGf := 1, windIw := 1, windKd := 1, windKt := 1, shapeCf := 2\<rparr>)
   \<and> panelArea (s\<lparr>width := 3, height := 2, areaFactor := 1, windV0 := 34, windKz := 1,
                   windGf := 1, windIw := 1, windKd := 1, windKt := 1, shapeCf := 2\<rparr>) = 6
   \<and> Fw_total (s\<lparr>width := 3, height := 2, areaFactor := 1, windV0 := 34, windKz := 1,
                  windGf := 1, windIw := 1, windKd := 1, windKt := 1, shapeCf := 2\<rparr>) = 8503.536"
  by (simp add: wind_defs)

text \<open>
  Claim C5 as stated fails: the initial cells are exactly scenario A, and the resultant
  wind force there is not 8503.2 N (that figure multiplies the pressure after rounding
  it to 708.6).
\<close>

theorem scenario_A_force_not_8503_2:
  "windV0 initial_app = 34 \<and> shapeCf initial_app = 2 \<and> panelArea initial_app = 6
   \<and> qz initial_app = q0 initial_app \<and> Fw_total initial_app \<noteq> 8503.2"
  by (simp add: initial_app_def wind_defs)

section \<open>Results: anchor group\<close>

lemmas anchor_defs = computeAnchorTensions_def Let_def Tmax_of_def max_with0_def

text \<open>
  Claim C2, as the code has it. For gauge 200 mm and pitch 160 mm the sum of squared
  offsets runs over all four anchors, so it is 4 * 0.1^2 = 0.04 m2; for every applied
  moment M the two upper anchors carry M * 0.1 / 0.04 = 2.5 M, the two lower anchors
  carry -2.5 M, and the maximum tension (negative tensions counted as 0) is 2.5 |M|.
\<close>

theorem scenario_B_tensions:
  "sumY2 (computeAnchorTensions m 200 160) = 0.04
   \<and> map T (tlist (computeAnchorTensions m 200 160)) = [2.5 * m, 2.5 * m, - 2.5 * m, - 2.5 * m]
   \<and> Tmax_of (tlist (computeAnchorTensions m 200 160)) = 2.5 * \<bar>m\<bar>"
  by (simp add: anchor_defs power2_eq_square)

text \<open>
  Claim C2 as stated fails: at M = 1000 N m the sum of squares is not 0.02 m2 and the
  maximum tension is 2500 N, not 5 M = 5000 N.
\<close>

theorem scenario_B_not_5M:
  "sumY2 (computeAnchorTensions 1000 200 160) \<noteq> 0.02
   \<and> Tmax_of (tlist (computeAnchorTensions 1000 200 160)) = 2500
   \<and> Tmax_of (tlist (computeAnchorTensions 1000 200 160)) \<noteq> 5 * 1000"
  by (simp add: anchor_defs power2_eq_square)

text \<open>
  Claim C6. For every moment M and every gauge and pitch above 0, the four tensions of
  the distribution reconstruct the moment: the sum of tension times vertical offset (the
  offset in metres, as the distribution itself uses it) equals M exactly.
\<close>

theorem tensions_moment_consistent:
  "0 < g \<Longrightarrow> 0 < p \<Longrightarrow>
   (\<Sum>a \<leftarrow> tlist (computeAnchorTensions m g p). T a * (ty a / 1000)) = m"
  by (simp add: computeAnchorTensions_def Let_def power2_eq_square field_simps)

theorem tensions_moment_consistent_witness:
  "(0::real) < 200 \<and> (0::real) < 160
   \<and> (\<Sum>a \<leftarrow> tlist (computeAnchorTensions 1000 200 160). T a * (ty a / 1000)) = 1000"
  using tensions_moment_consistent [of 200 160 1000] by simp

text \<open>
  Claim C9. With gauge 0 the sum of squared offsets is 0 and the distribution returns
  tension 0 for all four anchors, whatever the moment and the pitch; so the maximum
  tension of the anchor check is 0 for every moment, and the tension term of the
  interaction ratio is 0 for every positive capacity.
\<close>

theorem zero_gauge_zero_tension:
  "sumY2 (computeAnchorTensions m 0 p) = 0
   \<and> map T (tlist (computeAnchorTensions m 0 p)) = [0, 0, 0, 0]
   \<and> Tmax_of (tlist (computeAnchorTensions m 0 p)) = 0
   \<and> Tmax (s\<lparr>anchorGauge := 0\<rparr>) = 0
   \<and> tensionTerm cap (Tmax (s\<lparr>anchorGauge := 0\<rparr>)) = (if cap > 0 then Fin 0 else PInf)"
  by (simp add: anchor_defs Tmax_def T_each_def tensionTerm_def)

text \<open>
  Claim C10. In the combined interaction ratio, an effective tension capacity that is not
  positive makes the ratio infinite, which fails the test \<open>ratio < 1\<close>; a steel shear
  capacity that is not positive makes the shear term 0, so the ratio is the tension term
  alone, whatever the shear demand.
\<close>

theorem interaction_ratio_guards:
  "(Ta_eff s \<le> 0 \<longrightarrow>
      tensionTerm (Ta_eff s) (Tmax s) = PInf \<and> etaAnchorLinear s = PInf
      \<and> \<not> num_less (etaAnchorLinear s) 1)
   \<and> (Va (anchor s) \<le> 0 \<longrightarrow>
        shearTerm (Va_eff s) (V_anchor s) = Fin 0
        \<and> etaAnchorLinear s = tensionTerm (Ta_eff s) (Tmax s))"
  by (auto simp: tensionTerm_def shearTerm_def etaAnchorLinear_of_def etaAnchorLinear_def
      Va_eff_def)

theorem interaction_ratio_guards_witness:
  "Ta_eff (initial_app\<lparr>anchorEmbed := 0, anchor := (anchor initial_app)\<lparr>Va := 0\<rparr>\<rparr>) \<le> 0
   \<and> Va (anchor (initial_app\<lparr>anchorEmbed := 0, anchor := (anchor initial_app)\<lparr>Va := 0\<rparr>\<rparr>)) \<le> 0
   \<and> etaAnchorLinear (initial_app\<lparr>anchorEmbed := 0, anchor := (anchor initial_app)\<lparr>Va := 0\<rparr>\<rparr>)
       = PInf
   \<and> \<not> num_less
        (etaAnchorLinear (initial_app\<lparr>anchorEmbed := 0, anchor := (anchor initial_app)\<lparr>Va := 0\<rparr>\<rparr>)) 1
   \<and> shearTerm (Va_eff (initial_app\<lparr>anchorEmbed := 0, anchor := (anchor initial_app)\<lparr>Va := 0\<rparr>\<rparr>))
        (V_anchor (initial_app\<lparr>anchorEmbed := 0, anchor := (anchor initial_app)\<lparr>Va := 0\<rparr>\<rparr>))
       = Fin 0"
proof -
  have ta: "Ta_eff (initial_app\<lparr>anchorEmbed := 0, anchor := (anchor initial_app)\<lparr>Va := 0\<rparr>\<rparr>) \<le> 0"
    by (simp add: Ta_eff_def Ta_conc_def hef_def num_or_def initial_app_def mkABR_def)
  have va: "Va (anchor (initial_app\<lparr>anchorEmbed := 0, anchor := (anchor initial_app)\<lparr>Va := 0\<rparr>\<rparr>)) \<le> 0"
    by simp
  show ?thesis
    using ta va
      interaction_ratio_guards
        [of "initial_app\<lparr>anchorEmbed := 0, anchor := (anchor initial_app)\<lparr>Va := 0\<rparr>\<rparr>"]
    by blast
qed

text \<open>
  Claim C1, evaluated on the code. With a per-column design force of 8000 N and a selected
  quantity of 8 anchors, the anchor check divides by 8: the per-anchor shear is 1000 N.
  A fixed count of 4, which the automatic anchor selection uses for the same force, gives
  2000 N.
\<close>

theorem shear_follows_selected_quantity:
  "Fh (initial_app\<lparr>FhInput := 8000, anchorQty := 8\<rparr>) = 8000
   \<and> V_anchor (initial_app\<lparr>FhInput := 8000, anchorQty := 8\<rparr>) = 1000
   \<and> V_anchor (initial_app\<lparr>FhInput := 8000, anchorQty := 8\<rparr>)
       \<noteq> Fh (initial_app\<lparr>FhInput := 8000, anchorQty := 8\<rparr>) / 4
   \<and> V_c (Fh (initial_app\<lparr>FhInput := 8000, anchorQty := 8\<rparr>)) = 2000"
  by (simp add: V_anchor_def V_c_def ANCHOR_CALC_QTY_FIXED_def ANCHOR_CALC_QTY_def
      initial_app_def load_defs)

section \<open>Results: configuration import\<close>

text \<open>
  Claim C7, evaluated on the code. Importing, into the initial free-standing state (anchor
  M27), a configuration that names the anchor M48 ABR and carries an embedment of 600 mm
  selects M48 ABR and leaves the accepted embedment at 600 mm: the clamp of the imported
  embedment reads the anchor of the state before the import (20 * 27 = 540), and the
  sign-type effect does not run. The enforced minimum for the selected anchor is
  20 * 48 = 960 mm, so the embedment check fails.
\<close>

theorem import_embedment_below_minimum:
  "name (anchor (importConfig cfgM48 initial_app)) = ''M48 ABR''
   \<and> d (anchor (importConfig cfgM48 initial_app)) = 48
   \<and> signType (importConfig cfgM48 initial_app) = ''freestanding''
   \<and> anchorEmbed (importConfig cfgM48 initial_app) = 600
   \<and> hefReq (importConfig cfgM48 initial_app) = 960
   \<and> \<not> hefOK (importConfig cfgM48 initial_app)"
  by (simp add: importConfig_def applyConfig_def cfgM48_def initial_app_def find_or_first_def
      ABR_ANCHORS_def mkABR_def hefReq_def hefOK_def num_or_def Let_def)

section \<open>Results: foundation stability\<close>

lemma nCol_ge_1: "1 \<le> nCol s"
  by (simp add: nCol_def nCol_raw_def)

lemma Wself_perCol_nonneg: "0 \<le> panelKg s \<Longrightarrow> 0 \<le> Wself_perCol s"
  using nCol_ge_1 [of s] by (simp add: Wself_perCol_def Wself_total_def G_def)

lemma ef_A_weight_pos: "0 < ef_A_weight s B D"
  by (simp add: ef_A_weight_def max_def)

lemma ef_A_weight_mono:
  assumes "B1 \<le> B2" "0 \<le> D"
  shows "ef_A_weight s B1 D \<le> ef_A_weight s B2 D"
proof -
  have t1: "0 \<le> ef_t1 s" by (simp add: ef_t1_def)
  have "B1 * ef_t1 s \<le> B2 * ef_t1 s" using assms(1) t1 by (rule mult_right_mono)
  moreover have "B1 * D \<le> B2 * D" using assms by (rule mult_right_mono)
  ultimately show ?thesis by (auto simp: ef_A_weight_def max_def)
qed

lemma ef_N_mono:
  assumes "B1 \<le> B2" "0 \<le> D" "0 \<le> H" "0 \<le> concUnitW s" "0 \<le> soilUnitW s" "0 \<le> coverT s"
  shows "ef_N s B1 D H \<le> ef_N s B2 D H"
proof -
  have a: "ef_A_weight s B1 D \<le> ef_A_weight s B2 D"
    using assms(1,2) by (rule ef_A_weight_mono)
  have "ef_A_weight s B1 D * H \<le> ef_A_weight s B2 D * H"
    using a assms(3) by (rule mult_right_mono)
  then have 1: "ef_Wconc s B1 D H \<le> ef_Wconc s B2 D H"
    unfolding ef_Wconc_def using assms(4) by (intro mult_left_mono) auto
  have "ef_A_weight s B1 D * coverT s \<le> ef_A_weight s B2 D * coverT s"
    using a assms(6) by (rule mult_right_mono)
  then have 2: "ef_Wcover s B1 D \<le> ef_Wcover s B2 D"
    unfolding ef_Wcover_def using assms(5) by (intro mult_left_mono) auto
  show ?thesis unfolding ef_N_def using 1 2 by simp
qed

lemma ef_N_nonneg:
  assumes "0 \<le> H" "0 \<le> concUnitW s" "0 \<le> soilUnitW s" "0 \<le> coverT s" "0 \<le> panelKg s"
  shows "0 \<le> ef_N s B D H"
proof -
  have a: "0 \<le> ef_A_weight s B D" using ef_A_weight_pos [of s B D] by simp
  have 1: "0 \<le> ef_Wconc s B D H" unfolding ef_Wconc_def using a assms by simp
  have 2: "0 \<le> ef_Wcover s B D" unfolding ef_Wcover_def using a assms by simp
  show ?thesis unfolding ef_N_def using 1 2 Wself_perCol_nonneg [OF assms(5)] by simp
qed

text \<open>
  Claim C8. For footing widths B1 \<le> B2 and everything else fixed, the overturning factor
  of safety of the stability evaluation at B2 is at least its value at B1. The inputs are
  physical quantities: depth, thickness, the two unit weights, the soil cover and the panel
  mass are not negative.
\<close>

theorem FS_OT_mono_in_B:
  assumes "B1 \<le> B2" "0 \<le> D" "0 \<le> H" "0 \<le> concUnitW s" "0 \<le> soilUnitW s"
    "0 \<le> coverT s" "0 \<le> panelKg s"
  shows "r_FS_OT (evalFoundation s B1 D H) \<le> r_FS_OT (evalFoundation s B2 D H)"
proof -
  have N12: "ef_N s B1 D H \<le> ef_N s B2 D H" using assms(1-6) by (rule ef_N_mono)
  have N1: "0 \<le> ef_N s B1 D H" using assms(3-7) by (rule ef_N_nonneg)
  have "max (ef_N s B1 D H) eps9 \<le> max (ef_N s B2 D H) eps9" using N12 by (simp add: max_def)
  moreover have "0 < max (ef_N s B1 D H) eps9" by (simp add: max_def)
  ultimately have e: "ef_e s B2 D H \<le> ef_e s B1 D H"
    unfolding ef_e_def by (intro divide_left_mono) (auto simp: max_def)
  have l12: "ef_leverArm_OT s B1 D H \<le> ef_leverArm_OT s B2 D H"
    unfolding ef_leverArm_OT_def using e assms(1) by (simp add: max_def)
  have l1: "0 \<le> ef_leverArm_OT s B1 D H" by (simp add: ef_leverArm_OT_def)
  have "ef_MrN s B1 D H \<le> ef_MrN s B2 D H"
    unfolding ef_MrN_def using N12 l12 N1 l1 by (intro mult_mono) auto
  then have "ef_Mr s B1 D H \<le> ef_Mr s B2 D H" by (simp add: ef_Mr_def)
  moreover have "0 < max \<bar>M s\<bar> eps9" by (rule less_max_iff_disj [THEN iffD2]) simp
  ultimately have "ef_FS_OT s B1 D H \<le> ef_FS_OT s B2 D H"
    unfolding ef_FS_OT_def by (simp add: divide_right_mono)
  then show ?thesis by (simp add: evalFoundation_def)
qed

theorem FS_OT_mono_in_B_witness:
  "(4 / 5 :: real) \<le> 1 \<and> 0 \<le> concUnitW initial_app \<and> 0 \<le> soilUnitW initial_app
   \<and> 0 \<le> coverT initial_app \<and> 0 \<le> panelKg initial_app
   \<and> r_FS_OT (evalFoundation initial_app (4 / 5) 2 2) \<le> r_FS_OT (evalFoundation initial_app 1 2 2)"
  using FS_OT_mono_in_B [of "4 / 5" 1 2 2 initial_app] by (simp add: initial_app_def)

lemma contact_full:
  assumes "eps9 \<le> ef_N s B D H" "eps9 \<le> B" "eps9 \<le> B * D" "\<bar>M s\<bar> / ef_N s B D H \<le> B / 6"
  shows "ef_contactMode s B D H = full"
    and "ef_sigma_max s B D H = Fin ((ef_N s B D H / (B * D)) * (1 + 6 * (\<bar>M s\<bar> / ef_N s B D H) / B))"
    and "ef_sigma_min s B D H = (ef_N s B D H / (B * D)) * (1 - 6 * (\<bar>M s\<bar> / ef_N s B D H) / B)"
    and "ef_noUplift s B D H \<longleftrightarrow> ef_sigma_min s B D H \<ge> 0"
proof -
  have e: "ef_e s B D H = \<bar>M s\<bar> / ef_N s B D H"
    using assms(1) by (simp add: ef_e_def max_def)
  have mB: "max B eps9 = B" using assms(2) by (simp add: max_def)
  have mBD: "max (B * D) eps9 = B * D" using assms(3) by (simp add: max_def)
  show m: "ef_contactMode s B D H = full"
    using assms(4) by (simp add: ef_contactMode_def ef_e_lim_def e)
  show "ef_sigma_max s B D H = Fin ((ef_N s B D H / (B * D)) * (1 + 6 * (\<bar>M s\<bar> / ef_N s B D H) / B))"
    unfolding ef_sigma_max_def m ef_sigma_avg_full_def ef_A_full_def e mB mBD by simp
  show "ef_sigma_min s B D H = (ef_N s B D H / (B * D)) * (1 - 6 * (\<bar>M s\<bar> / ef_N s B D H) / B)"
    unfolding ef_sigma_min_def m ef_sigma_avg_full_def ef_A_full_def e mB mBD by simp
  show "ef_noUplift s B D H \<longleftrightarrow> ef_sigma_min s B D H \<ge> 0"
    unfolding ef_noUplift_def m by simp
qed

lemma contact_partial:
  assumes "eps9 \<le> ef_N s B D H" "B / 6 < \<bar>M s\<bar> / ef_N s B D H" "\<bar>M s\<bar> / ef_N s B D H < B / 2"
  shows "ef_contactMode s B D H = partial"
    and "ef_b_eff s B D H = 3 * (B / 2 - \<bar>M s\<bar> / ef_N s B D H)"
    and "ef_sigma_max s B D H = Fin (2 * ef_N s B D H / max (ef_b_eff s B D H * D) eps9)"
    and "ef_sigma_min s B D H = 0"
    and "\<not> ef_noUplift s B D H"
proof -
  have e: "ef_e s B D H = \<bar>M s\<bar> / ef_N s B D H"
    using assms(1) by (simp add: ef_e_def max_def)
  show m: "ef_contactMode s B D H = partial"
    using assms(2,3) by (simp add: ef_contactMode_def ef_e_lim_def e)
  show "ef_b_eff s B D H = 3 * (B / 2 - \<bar>M s\<bar> / ef_N s B D H)"
    using assms(2,3) by (simp add: ef_b_eff_def ef_e_lim_def e max_def)
  show "ef_sigma_max s B D H = Fin (2 * ef_N s B D H / max (ef_b_eff s B D H * D) eps9)"
    unfolding ef_sigma_max_def m ef_A_contact_def by simp
  show "ef_sigma_min s B D H = 0" unfolding ef_sigma_min_def m by simp
  show "\<not> ef_noUplift s B D H" unfolding ef_noUplift_def m by simp
qed

lemma contact_none:
  assumes "eps9 \<le> ef_N s B D H" "eps9 \<le> B" "B / 2 \<le> \<bar>M s\<bar> / ef_N s B D H"
  shows "ef_contactMode s B D H = none"
    and "ef_sigma_max s B D H = PInf"
    and "\<not> ef_bearingOK s B D H"
    and "\<not> ef_ok s B D H"
proof -
  have e: "ef_e s B D H = \<bar>M s\<bar> / ef_N s B D H"
    using assms(1) by (simp add: ef_e_def max_def)
  show m: "ef_contactMode s B D H = none"
    using assms(2,3) by (simp add: ef_contactMode_def ef_e_lim_def e)
  show sm: "ef_sigma_max s B D H = PInf" unfolding ef_sigma_max_def m by simp
  show bo: "\<not> ef_bearingOK s B D H" unfolding ef_bearingOK_def sm by simp
  show "\<not> ef_ok s B D H" using bo by (simp add: ef_ok_def)
qed

text \<open>
  Claim C3, as the code has it. The evaluation guards its divisions with a floor of 1e-9.
  Where the vertical load N, the width B and the area B * D are at or above that floor,
  the eccentricity is e = |M| / N and exactly one of three contact states is selected:
  full when e \<le> B/6, with extreme pressures (N / (B * D)) * (1 +/- 6 e / B) and no uplift iff
  the smaller one is not negative; partial when B/6 < e < B/2, with contact width
  b_eff = 3 * (B/2 - e), largest pressure 2 N / max (b_eff * D, 1e-9), that is
  2 N / (b_eff * D) where the contact area is at or above the floor and 2 N / 1e-9 below
  it, smallest pressure 0 and uplift; none when e \<ge> B/2, with largest pressure infinite
  and the bearing check and the overall check failed, whatever the other inputs.
\<close>

theorem contact_state_selection:
  assumes "eps9 \<le> ef_N s B D H" "eps9 \<le> B" "eps9 \<le> B * D"
  shows "ef_e s B D H = \<bar>M s\<bar> / ef_N s B D H
    \<and> (\<bar>M s\<bar> / ef_N s B D H \<le> B / 6 \<longrightarrow>
         ef_contactMode s B D H = full
       \<and> ef_sigma_max s B D H
            = Fin ((ef_N s B D H / (B * D)) * (1 + 6 * (\<bar>M s\<bar> / ef_N s B D H) / B))
       \<and> ef_sigma_min s B D H = (ef_N s B D H / (B * D)) * (1 - 6 * (\<bar>M s\<bar> / ef_N s B D H) / B)
       \<and> (ef_noUplift s B D H \<longleftrightarrow> ef_sigma_min s B D H \<ge> 0))
    \<and> (B / 6 < \<bar>M s\<bar> / ef_N s B D H \<and> \<bar>M s\<bar> / ef_N s B D H < B / 2 \<longrightarrow>
         ef_contactMode s B D H = partial
       \<and> ef_b_eff s B D H = 3 * (B / 2 - \<bar>M s\<bar> / ef_N s B D H)
       \<and> ef_sigma_max s B D H
            = Fin (2 * ef_N s B D H / max (3 * (B / 2 - \<bar>M s\<bar> / ef_N s B D H) * D) eps9)
       \<and> (eps9 \<le> 3 * (B / 2 - \<bar>M s\<bar> / ef_N s B D H) * D \<longrightarrow>
            ef_sigma_max s B D H
              = Fin (2 * ef_N s B D H / (3 * (B / 2 - \<bar>M s\<bar> / ef_N s B D H) * D)))
       \<and> (3 * (B / 2 - \<bar>M s\<bar> / ef_N s B D H) * D < eps9 \<longrightarrow>
            ef_sigma_max s B D H = Fin (2 * ef_N s B D H / eps9))
       \<and> ef_sigma_min s B D H = 0 \<and> \<not> ef_noUplift s B D H)
    \<and> (B / 2 \<le> \<bar>M s\<bar> / ef_N s B D H \<longrightarrow>
         ef_contactMode s B D H = none
       \<and> ef_sigma_max s B D H = PInf
       \<and> \<not> r_bearingOK (evalFoundation s B D H) \<and> \<not> r_ok (evalFoundation s B D H))"
proof -
  have e: "ef_e s B D H = \<bar>M s\<bar> / ef_N s B D H"
    using assms(1) by (simp add: ef_e_def max_def)
  have p: "ef_sigma_max s B D H
        = Fin (2 * ef_N s B D H / max (3 * (B / 2 - \<bar>M s\<bar> / ef_N s B D H) * D) eps9)"
    if "B / 6 < \<bar>M s\<bar> / ef_N s B D H" "\<bar>M s\<bar> / ef_N s B D H < B / 2"
    using contact_partial(2,3) [OF assms(1) that] by simp
  have p1: "ef_sigma_max s B D H
        = Fin (2 * ef_N s B D H / (3 * (B / 2 - \<bar>M s\<bar> / ef_N s B D H) * D))"
    if "B / 6 < \<bar>M s\<bar> / ef_N s B D H" "\<bar>M s\<bar> / ef_N s B D H < B / 2"
      "eps9 \<le> 3 * (B / 2 - \<bar>M s\<bar> / ef_N s B D H) * D"
    using p [OF that(1,2)] that(3) by (simp add: max_def)
  have p2: "ef_sigma_max s B D H = Fin (2 * ef_N s B D H / eps9)"
    if "B / 6 < \<bar>M s\<bar> / ef_N s B D H" "\<bar>M s\<bar> / ef_N s B D H < B / 2"
      "3 * (B / 2 - \<bar>M s\<bar> / ef_N s B D H) * D < eps9"
    using p [OF that(1,2)] that(3) by (simp add: max_def)
  show ?thesis
    using e contact_full [OF assms] contact_partial(1,2,4,5) [OF assms(1)] p p1 p2
      contact_none [OF assms(1,2)]
    by (simp add: evalFoundation_def)
qed

lemmas fnd_N_defs = ef_N_def ef_Wconc_def ef_Wcover_def ef_A_weight_def

lemma ef_N_initial_2_2_2: "ef_N initial_app 2 2 2 = 216050" 
  by (simp add: initial_app_def fnd_N_defs load_defs)
lemma ef_N_initial_2_2_04: "ef_N initial_app 2 2 (2/5) = 62450" 
  by (simp add: initial_app_def fnd_N_defs load_defs)
lemma ef_N_initial_default: "ef_N initial_app (4/5) (4/5) (4/5) = 18194" 
  by (simp add: initial_app_def fnd_N_defs load_defs)
lemma M_initial: "M initial_app = 29762.376"
  by (simp add: initial_app_def load_defs wind_defs)

theorem contact_state_selection_witness:
  "ef_contactMode initial_app 2 2 2 = full
   \<and> ef_sigma_max initial_app 2 2 2 = Fin ((216050 / 4) * (1 + 6 * (29762.376 / 216050) / 2))
   \<and> ef_noUplift initial_app 2 2 2
   \<and> ef_contactMode initial_app 2 2 (2 / 5) = partial
   \<and> ef_b_eff initial_app 2 2 (2 / 5) = 3 * (1 - 29762.376 / 62450)
   \<and> ef_sigma_max initial_app 2 2 (2 / 5)
        = Fin (2 * 62450 / (3 * (1 - 29762.376 / 62450) * 2))
   \<and> ef_contactMode initial_app (4 / 5) (4 / 5) (4 / 5) = none
   \<and> ef_sigma_max initial_app (4 / 5) (4 / 5) (4 / 5) = PInf
   \<and> \<not> r_ok (evalFoundation initial_app (4 / 5) (4 / 5) (4 / 5))"
  using contact_state_selection [of initial_app 2 2 2]
    contact_state_selection [of initial_app 2 2 "2 / 5"]
    contact_state_selection [of initial_app "4 / 5" "4 / 5" "4 / 5"]
  unfolding ef_N_initial_2_2_2 ef_N_initial_2_2_04 ef_N_initial_default M_initial by simp

text \<open>
  Claim C3 as stated fails. On a footing of 1 m by 1 m by 1 m with vertical load
  N = 31850 N > 0 and eccentricity a tenth of a nanometre short of B/2, the state is
  partial and the contact area 3 * (B/2 - e) * D lies below the floor, so the largest
  pressure is 2 N / 1e-9 and not 2 N / (b_eff * D).
\<close>

theorem partial_contact_floor:
  "0 < ef_N edgeOfContact 1 1 1
   \<and> 1 / 6 < \<bar>M edgeOfContact\<bar> / ef_N edgeOfContact 1 1 1
   \<and> \<bar>M edgeOfContact\<bar> / ef_N edgeOfContact 1 1 1 < 1 / 2
   \<and> ef_contactMode edgeOfContact 1 1 1 = partial
   \<and> ef_sigma_max edgeOfContact 1 1 1
       \<noteq> Fin (2 * ef_N edgeOfContact 1 1 1
               / (3 * (1 / 2 - \<bar>M edgeOfContact\<bar> / ef_N edgeOfContact 1 1 1) * 1))"
proof -
  have N: "ef_N edgeOfContact 1 1 1 = 31850"
    by (simp add: edgeOfContact_def initial_app_def fnd_N_defs load_defs)
  have Mv: "M edgeOfContact = 31850 * (1 / 2 - 1 / 10 ^ 10)"
    by (simp add: edgeOfContact_def initial_app_def load_defs)
  have e: "ef_e edgeOfContact 1 1 1 = 1 / 2 - 1 / 10 ^ 10"
    unfolding ef_e_def N Mv by simp
  have m: "ef_contactMode edgeOfContact 1 1 1 = partial"
    unfolding ef_contactMode_def ef_e_lim_def e by simp
  have sm: "ef_sigma_max edgeOfContact 1 1 1 = Fin (2 * 31850 * 10 ^ 9)"
    unfolding ef_sigma_max_def m ef_A_contact_def ef_b_eff_def ef_e_lim_def e N by simp
  show ?thesis unfolding sm m N Mv by simp
qed

section \<open>Results: footing optimizer\<close>

lemma dbl_binade:
  assumes "2 powr real_of_int k \<le> x" "x < 2 powr (real_of_int k + 1)"
  shows "dbl x
    = 2 powr (real_of_int k - 52) * real_of_int (round_even (x / 2 powr (real_of_int k - 52)))"
proof -
  have pos: "0 < x" using assms(1) by (rule less_le_trans [rotated]) simp
  have "\<lfloor>log 2 x\<rfloor> = k" using assms pos by (simp add: floor_log_eq_powr_iff)
  then show ?thesis using pos by (simp add: dbl_def Let_def)
qed

lemma dbl_1_2:
  "1 \<le> x \<Longrightarrow> x < 2 \<Longrightarrow> dbl x = real_of_int (round_even (x * 2 ^ 52)) / 2 ^ 52"
  using dbl_binade [of 0 x] by (simp add: powr_minus powr_numeral divide_simps)

lemma dbl_2_4:
  "2 \<le> x \<Longrightarrow> x < 4 \<Longrightarrow> dbl x = real_of_int (round_even (x * 2 ^ 51)) / 2 ^ 51"
  using dbl_binade [of 1 x] by (simp add: powr_minus powr_numeral powr_add divide_simps)

lemma dbl_half_1:
  "1 / 2 \<le> x \<Longrightarrow> x < 1 \<Longrightarrow> dbl x = real_of_int (round_even (x * 2 ^ 53)) / 2 ^ 53"
  using dbl_binade [of "-1" x] by (simp add: powr_minus powr_numeral divide_simps)

lemma dbl_quarter_half:
  "1 / 4 \<le> x \<Longrightarrow> x < 1 / 2 \<Longrightarrow> dbl x = real_of_int (round_even (x * 2 ^ 54)) / 2 ^ 54"
  using dbl_binade [of "-2" x] by (simp add: powr_minus powr_numeral divide_simps)

lemma dbl_32nd_16th:
  "1 / 32 \<le> x \<Longrightarrow> x < 1 / 16 \<Longrightarrow> dbl x = real_of_int (round_even (x * 2 ^ 57)) / 2 ^ 57"
  using dbl_binade [of "-5" x] by (simp add: powr_minus powr_numeral divide_simps)

lemmas dbl_eval = dbl_1_2 dbl_2_4 dbl_half_1 dbl_quarter_half round_even_def

text \<open>The doubles of the literals 0.05, 0.6, 0.4 and 0.8.\<close>

lemma dbl_005: "dbl (1 / 20) = 3602879701896397 / 72057594037927936"
  by (simp add: dbl_32nd_16th round_even_def)

lemma dbl_06: "dbl (3 / 5) = 5404319552844595 / 9007199254740992"
  by (simp add: dbl_eval)

lemma dbl_04: "dbl (2 / 5) = 3602879701896397 / 9007199254740992"
  by (simp add: dbl_eval)

lemma dbl_08: "dbl (4 / 5) = 3602879701896397 / 4503599627370496"
  by (simp add: dbl_eval)

text \<open>The values the two counters take: 28 from 0.6 and 32 from 0.4, all below 2.\<close>

lemma gridFrom_06:
  "gridFrom (dbl (6 / 10)) = Some
     [5404319552844595 / 9007199254740992, 5854679515581645 / 9007199254740992,
      6305039478318695 / 9007199254740992, 6755399441055745 / 9007199254740992,
      7205759403792795 / 9007199254740992, 7656119366529845 / 9007199254740992,
      8106479329266895 / 9007199254740992, 8556839292003945 / 9007199254740992,
      4503599627370497 / 4503599627370496, 2364389804369511 / 2251799813685248,
      4953959590107547 / 4503599627370496, 647392446434509 / 562949953421312,
      5404319552844597 / 4503599627370496, 2814749767106561 / 2251799813685248,
      5854679515581647 / 4503599627370496, 1519964874237543 / 1125899906842624,
      6305039478318697 / 4503599627370496, 3265109729843611 / 2251799813685248,
      6755399441055747 / 4503599627370496, 436286213901517 / 281474976710656,
      7205759403792797 / 4503599627370496, 3715469692580661 / 2251799813685248,
      7656119366529847 / 4503599627370496, 1970324836974593 / 1125899906842624,
      8106479329266897 / 4503599627370496, 4165829655317711 / 2251799813685248,
      8556839292003947 / 4503599627370496, 1097752409171559 / 562949953421312]"
  by (simp add: gridFrom.simps fadd_def dbl_eval dbl_06 dbl_005)

lemma gridFrom_04:
  "gridFrom (dbl (4 / 10)) = Some
     [3602879701896397 / 9007199254740992, 8106479329266893 / 18014398509481984, 1 / 2,
      2476979795053773 / 4503599627370496, 1351079888211149 / 2251799813685248,
      2927339757790823 / 4503599627370496, 788129934789837 / 1125899906842624,
      3377699720527873 / 4503599627370496, 1801439850948199 / 2251799813685248,
      3828059683264923 / 4503599627370496, 506654958079181 / 562949953421312,
      4278419646001973 / 4503599627370496, 2251799813685249 / 2251799813685248,
      4728779608739023 / 4503599627370496, 1238489897526887 / 1125899906842624,
      5179139571476073 / 4503599627370496, 2702159776422299 / 2251799813685248,
      5629499534213123 / 4503599627370496, 365917469723853 / 281474976710656,
      6079859496950173 / 4503599627370496, 3152519739159349 / 2251799813685248,
      6530219459687223 / 4503599627370496, 1688849860263937 / 1125899906842624,
      6980579422424273 / 4503599627370496, 3602879701896399 / 2251799813685248,
      7430939385161323 / 4503599627370496, 957014920816231 / 562949953421312,
      7881299347898373 / 4503599627370496, 4053239664633449 / 2251799813685248,
      8331659310635423 / 4503599627370496, 2139209823000987 / 1125899906842624,
      8782019273372473 / 4503599627370496]"
  by (simp add: gridFrom.simps fadd_def dbl_eval dbl_04 dbl_005)

lemma gridFrom_06_bounds:
  "\<exists>bs. gridFrom (dbl (6 / 10)) = Some bs \<and> length bs = 28
        \<and> last bs = 1097752409171559 / 562949953421312
        \<and> (\<forall>x \<in> set bs. 1 / 2 \<le> x \<and> x \<le> 49 / 25)"
  unfolding gridFrom_06 by simp

lemma gridFrom_04_bounds:
  "\<exists>hs. gridFrom (dbl (4 / 10)) = Some hs \<and> length hs = 32
        \<and> last hs = 8782019273372473 / 4503599627370496
        \<and> (\<forall>x \<in> set hs. 0 \<le> x \<and> x \<le> 49 / 25)"
  unfolding gridFrom_04 by simp

lemma fold_unchanged: "(\<And>x. x \<in> set xs \<Longrightarrow> f x st = st) \<Longrightarrow> fold f xs st = st"
  by (induction xs) simp_all

lemma searchStep_skip: "\<not> r_ok (evalFoundation s B D H) \<Longrightarrow> searchStep s B D H st = st"
  by (simp add: searchStep_def)

text \<open>When no visited footing passes, the first search leaves its starting state alone.\<close>

lemma search_loops_unchanged:
  assumes "\<And>B D H. B \<in> set bs \<Longrightarrow> D \<in> set ds \<Longrightarrow> H \<in> set hs
             \<Longrightarrow> \<not> r_ok (evalFoundation s B D H)"
  shows "fold (\<lambda>B. fold (\<lambda>D. fold (\<lambda>H. searchStep s B D H) hs) ds) bs st = st"
  by (intro fold_unchanged searchStep_skip assms)

lemma nearStep_Some: "\<exists>b. nearStep s B D H bn = Some b"
  by (cases bn) (simp_all add: nearStep_def Let_def)

lemma fold_nearStep_Some:
  assumes "hs \<noteq> []"
  shows "\<exists>b. fold (\<lambda>H. nearStep s B D H) hs bn = Some b"
  using assms
proof (induction hs rule: rev_induct)
  case Nil
  then show ?case by simp
next
  case (snoc h hs)
  show ?case using nearStep_Some [of s B D h] by simp
qed

lemma fold_fold_Some:
  assumes "\<And>x st. \<exists>b. f x st = Some b" "xs \<noteq> []"
  shows "\<exists>b. fold f xs st = Some b"
  using assms(2)
proof (induction xs rule: rev_induct)
  case Nil
  then show ?case by simp
next
  case (snoc x xs)
  show ?case using assms(1) [of x "fold f xs st"] by simp
qed

text \<open>The rescue search over non-empty loops always ends with a candidate.\<close>

lemma near_loops_Some:
  assumes "bs \<noteq> []" "ds \<noteq> []" "hs \<noteq> []"
  shows "\<exists>b. fold (\<lambda>B. fold (\<lambda>D. fold (\<lambda>H. nearStep s B D H) hs) ds) bs None = Some b"
proof -
  have inner: "\<exists>b. fold (\<lambda>H. nearStep s B D H) hs st = Some b" for B D st
    using assms(3) by (rule fold_nearStep_Some)
  have middle: "\<exists>b. fold (\<lambda>D. fold (\<lambda>H. nearStep s B D H) hs) ds st = Some b" for B st
    using inner assms(2) by (rule fold_fold_Some)
  show ?thesis using middle assms(1) by (rule fold_fold_Some)
qed

lemmas ef_defs = ef_ok_def ef_bearingOK_def ef_OT_OK_def ef_SL_OK_def ef_sigma_max_def
  ef_sigma_min_def ef_noUplift_def ef_contactMode_def ef_b_eff_def ef_e_lim_def ef_e_def
  ef_A_full_def ef_A_contact_def ef_sigma_avg_full_def ef_qa_allow_final_def
  ef_qa_allow_soil_def ef_qa_allow_conc_def ef_z_def ef_gammaN_def ef_Pp_raw_def ef_Pp_def
  ef_M_passive_def ef_leverArm_OT_def ef_MrN_def ef_Mr_def ef_FS_OT_def ef_contactRatio_def
  ef_N_eff_def ef_R_slide_def ef_FS_SL_def PASSIVE_SOIL_Kp_def

lemma tallSign_cells:
  "signType tallSign = ''freestanding''" "Fh tallSign = 8503.536" "M tallSign = 69728.9952"
  "Wself_perCol tallSign = 2450" "allowUpliftOK tallSign = False" "footShape tallSign = RECT"
  by (simp_all add: tallSign_def initial_app_def load_defs wind_defs)

lemma tallSign_N:
  assumes "eps9 \<le> B * D"
  shows "ef_N tallSign B D H = 24000 * (B * D * H) + 5400 * (B * D) + 2450"
proof -
  have "max (B * D) eps9 = B * D" using assms by (simp add: max_def)
  then have "ef_A_weight tallSign B D = B * D"
    by (simp add: ef_A_weight_def tallSign_cells)
  then show ?thesis
    unfolding ef_N_def ef_Wconc_def ef_Wcover_def tallSign_cells
    by (simp add: tallSign_def initial_app_def)
qed

text \<open>
  Under the tall sign every footing with sides up to 1.96 m lifts off its heel: the
  eccentricity exceeds a sixth of the width, so the check of no uplift fails.
\<close>

lemma tallSign_small_fails:
  assumes "1 / 2 \<le> B" "B \<le> 49 / 25" "1 / 2 \<le> D" "D \<le> 49 / 25" "0 \<le> H" "H \<le> 49 / 25"
  shows "\<not> r_ok (evalFoundation tallSign B D H)"
proof -
  have bd: "1 / 4 \<le> B * D" using mult_mono [of "1 / 2" B "1 / 2" D] assms by simp
  have bd2: "B * D \<le> (49 / 25) * (49 / 25)"
    using mult_mono [of B "49 / 25" D "49 / 25"] assms by simp
  have bdh0: "0 \<le> B * D * H" using assms by simp
  have bdh: "B * D * H \<le> (49 / 25) * (49 / 25) * (49 / 25)"
    using mult_mono [of "B * D" "(49 / 25) * (49 / 25)" H "49 / 25"] bd bd2 assms by simp
  have N: "ef_N tallSign B D H = 24000 * (B * D * H) + 5400 * (B * D) + 2450"
    using bd by (intro tallSign_N) simp
  have Nlo: "2450 \<le> ef_N tallSign B D H" unfolding N using bdh0 bd by simp
  have Nhi: "ef_N tallSign B D H \<le> 203905" unfolding N using bdh bd2 by simp
  have "B * ef_N tallSign B D H \<le> (49 / 25) * 203905"
    using mult_mono [of B "49 / 25" "ef_N tallSign B D H" 203905] assms Nlo Nhi by simp
  then have "B / 6 < 69728.9952 / ef_N tallSign B D H"
    using Nlo by (simp add: field_simps)
  moreover have "max (ef_N tallSign B D H) eps9 = ef_N tallSign B D H"
    using Nlo by (simp add: max_def)
  ultimately have "\<not> ef_e tallSign B D H \<le> ef_e_lim B"
    unfolding ef_e_def ef_e_lim_def tallSign_cells by simp
  then have "\<not> ef_noUplift tallSign B D H"
    by (simp add: ef_noUplift_def ef_contactMode_def)
  then show ?thesis
    by (simp add: evalFoundation_def ef_ok_def ef_OT_OK_def tallSign_cells)
qed

text \<open>The footing 2.0 m by 1.95 m by 2.0 m, a candidate of the stated grid, passes.\<close>

lemma tallSign_large_passes: "r_ok (evalFoundation tallSign 2 (39 / 20) 2)"
proof -
  have N: "ef_N tallSign 2 (39 / 20) 2 = 210710"
    by (subst tallSign_N) simp_all
  show ?thesis
    unfolding evalFoundation_def fnd.simps ef_defs N tallSign_cells
    by (simp add: tallSign_def initial_app_def num_or_def)
qed

lemma tallSign_default_fails: "\<not> found (searchInit tallSign)"
  unfolding searchInit_def DEFAULT_FOOT_def
  by (simp add: dbl_08 tallSign_small_fails)

text \<open>
  Claim C4, evaluated on the code. The loop counters are doubles. Counting from 0.6 in
  steps of 0.05 the counter takes 28 values, the last 1.95000000000000106...; counting
  from 0.4 it takes 32 values, the last 1.95000000000000128...; the next value of either
  counter lies above 2.0, so neither loop visits 2.0. For the mounted application with
  the centre of gravity at 8.2 m, the footing 2.0 m by 1.95 m by 2.0 m of the stated grid
  passes the stability check, but no footing that the loops visit passes (nor does the
  default footing): the first search ends with nothing found and the run shows the
  best-effort alert.
\<close>

theorem loops_stop_short_of_two:
  "\<not> visits 0.6 2 \<and> \<not> visits 0.4 2
   \<and> visits 0.6 (1097752409171559 / 562949953421312)
   \<and> visits 0.4 (8782019273372473 / 4503599627370496)
   \<and> r_ok (evalFoundation tallSign 2 (39 / 20) 2)
   \<and> map_option found (searchPassing tallSign) = Some False
   \<and> map_option snd (optimizeFoundation tallSign) = Some BestNearAlert"
proof -
  obtain bs where bs: "gridFrom (dbl (6 / 10)) = Some bs" "length bs = 28"
    "\<forall>x \<in> set bs. 1 / 2 \<le> x \<and> x \<le> 49 / 25"
    using gridFrom_06_bounds by blast
  obtain hs where hs: "gridFrom (dbl (4 / 10)) = Some hs" "length hs = 32"
    "\<forall>x \<in> set hs. 0 \<le> x \<and> x \<le> 49 / 25"
    using gridFrom_04_bounds by blast
  have ne: "bs \<noteq> []" "hs \<noteq> []" using bs(2) hs(2) by auto
  have v: "\<not> visits 0.6 2" "\<not> visits 0.4 2"
    "visits 0.6 (1097752409171559 / 562949953421312)"
    "visits 0.4 (8782019273372473 / 4503599627370496)"
    unfolding visits_def gridFrom_06 gridFrom_04 by simp_all
  have "fold (\<lambda>B. fold (\<lambda>D. fold (\<lambda>H. searchStep tallSign B D H) hs) bs) bs (searchInit tallSign)
      = searchInit tallSign"
    using bs(3) hs(3) by (intro search_loops_unchanged tallSign_small_fails) auto
  then have sp: "searchPassing tallSign = Some (searchInit tallSign)"
    unfolding searchPassing_def bs(1) hs(1) by simp
  obtain b where
    "fold (\<lambda>B. fold (\<lambda>D. fold (\<lambda>H. nearStep tallSign B D H) hs) bs) bs None = Some b"
    using near_loops_Some [OF ne(1) ne(1) ne(2)] by blast
  then have sn: "searchNear tallSign = Some (Some b)"
    unfolding searchNear_def bs(1) hs(1) by simp
  have out: "map_option snd (optimizeFoundation tallSign) = Some BestNearAlert"
    unfolding optimizeFoundation_def sp sn using tallSign_default_fails
    by (simp add: tallSign_cells)
  show ?thesis
    using v tallSign_large_passes out sp tallSign_default_fails by simp
qed

end
